theory Spec2Isabelle
  imports Complex_Main "HOL-Library.AList"
begin

section \<open>Python values used by the check batteries\<close>

text \<open>
  The embedding covers \<^verbatim>\<open>AIAppTester.run_full_test_suite\<close>,
  \<^verbatim>\<open>AIAppTester._generate_recommendations\<close>,
  \<^verbatim>\<open>HealthMonitor.monitor_all_applications\<close> and
  \<^verbatim>\<open>HealthMonitor._check_application_health\<close> of \<^verbatim>\<open>src/ai_apps_manager.py\<close>.

  Modelling choices.
  \<^item> A Python \<^verbatim>\<open>dict\<close> is an association list in insertion order; \<^verbatim>\<open>d[k] = v\<close> is
    \<open>AList.update\<close> (replace in place, or append), \<^verbatim>\<open>d.get(k)\<close> is \<open>map_of\<close>.
  \<^item> A raised exception is the left injection of a sum; \<^verbatim>\<open>str(e)\<close> is the selector
    \<open>str\<close>. Only instances of \<^verbatim>\<open>Exception\<close> are modelled, which is what the
    \<^verbatim>\<open>except Exception\<close> clauses of the source catch.
  \<^item> An awaited coroutine is modelled by what it evaluates to: it returns a value or
    raises. Every awaited call is taken to finish.
  \<^item> A Python \<^verbatim>\<open>float\<close> is an exact rational. The comparisons of the source
    (\<^verbatim>\<open>p / n >= 0.9\<close>, \<^verbatim>\<open>c <= n * 0.2\<close>, \<^verbatim>\<open>c <= n * 0.5\<close>) have the same truth
    value in IEEE double arithmetic as in exact arithmetic for the counts a battery can
    hold; the embedding does not model rounding.
  \<^item> Timestamps, the application name and logging are left out: no result below depends
    on them.
  \<^item> A non-ASCII character of a source string literal is the list of its UTF-8 bytes.
\<close>

datatype py_exception = Exception (exc_class: string) (str: string)

definition ZeroDivisionError :: py_exception where
  "ZeroDivisionError = Exception ''ZeroDivisionError'' ''division by zero''"

definition TypeError :: "string \<Rightarrow> py_exception" where
  "TypeError msg = Exception ''TypeError'' msg"

text \<open>Python's true division \<^verbatim>\<open>a / b\<close>, which raises on a zero divisor.\<close>

definition truediv :: "rat \<Rightarrow> rat \<Rightarrow> py_exception + rat" where
  "truediv a b = (if b = 0 then Inl ZeroDivisionError else Inr (a / b))"

section \<open>AIAppTester: the test battery\<close>

text \<open>
  A test result is the dict a test coroutine returns; the values the source reads
  (\<^verbatim>\<open>status\<close>, \<^verbatim>\<open>error\<close>, \<^verbatim>\<open>recommendation\<close>) are strings.
\<close>

type_synonym test_result = "(string \<times> string) list"

type_synonym test_func = "py_exception + test_result"

subsection \<open>The emoji prefixes of the recommendation strings, as UTF-8 bytes\<close>

definition red_circle :: string where
  "red_circle = [CHR 0xF0, CHR 0x9F, CHR 0x94, CHR 0xB4]"

definition warning_sign :: string where
  "warning_sign = [CHR 0xE2, CHR 0x9A, CHR 0xA0, CHR 0xEF, CHR 0xB8, CHR 0x8F]"

definition light_bulb :: string where
  "light_bulb = [CHR 0xF0, CHR 0x9F, CHR 0x92, CHR 0xA1]"

definition books :: string where
  "books = [CHR 0xF0, CHR 0x9F, CHR 0x93, CHR 0x9A]"

definition whale :: string where
  "whale = [CHR 0xF0, CHR 0x9F, CHR 0x90, CHR 0xB3]"

definition gear :: string where
  "gear = [CHR 0xE2, CHR 0x9A, CHR 0x99, CHR 0xEF, CHR 0xB8, CHR 0x8F]"

definition bar_chart :: string where
  "bar_chart = [CHR 0xF0, CHR 0x9F, CHR 0x93, CHR 0x8A]"

definition magnifier :: string where
  "magnifier = [CHR 0xF0, CHR 0x9F, CHR 0x94, CHR 0x8D]"

subsection \<open>\<^verbatim>\<open>_generate_recommendations\<close>\<close>

text \<open>The list the source extends the recommendations with, whatever the results.\<close>

definition general_recommendations :: "string list" where
  "general_recommendations =
     [books @ '' Add comprehensive README with setup instructions'',
      whale @ '' Add Dockerfile for containerization'',
      gear @ '' Add GitHub Actions CI/CD workflow'',
      bar_chart @ '' Add health check endpoints'',
      magnifier @ '' Add logging and monitoring'']"

text \<open>
  \<^verbatim>\<open>result.get(key, default)\<close> on a test result.
\<close>

definition get_default :: "test_result \<Rightarrow> string \<Rightarrow> string \<Rightarrow> string" where
  "get_default result key dflt = (case map_of result key of Some v \<Rightarrow> v | None \<Rightarrow> dflt)"

text \<open>
  The \<^verbatim>\<open>for test_name, result in test_results.items()\<close> loop; the second argument is
  the list \<^verbatim>\<open>recommendations\<close> built so far, and each \<^verbatim>\<open>append\<close> adds at its end.
\<close>

fun recommendations_loop :: "(string \<times> test_result) list \<Rightarrow> string list \<Rightarrow> string list" where
  "recommendations_loop [] recommendations = recommendations"
| "recommendations_loop ((test_name, result) # rest) recommendations =
     (if map_of result ''status'' = Some ''failed'' then
        recommendations_loop rest
          (recommendations @
             [red_circle @ '' Fix '' @ test_name @ '': '' @ get_default result ''error'' ''Unknown error''])
      else if map_of result ''status'' = Some ''skipped'' then
        recommendations_loop rest
          (recommendations @
             [warning_sign @ '' Implement '' @ test_name @ '': ''
                @ get_default result ''recommendation'' ''Not implemented''])
      else if map_of result ''recommendation'' \<noteq> None then
        recommendations_loop rest
          (recommendations @ [light_bulb @ '' '' @ the (map_of result ''recommendation'')])
      else recommendations_loop rest recommendations)"

definition generate_recommendations :: "(string \<times> test_result) list \<Rightarrow> string list" where
  "generate_recommendations test_results =
     recommendations_loop test_results [] @ general_recommendations"

subsection \<open>\<^verbatim>\<open>run_full_test_suite\<close>\<close>

text \<open>The dict \<^verbatim>\<open>results\<close> that \<^verbatim>\<open>run_full_test_suite\<close> returns.\<close>

record test_report =
  overall_status :: string
  tests :: "(string \<times> test_result) list"
  recommendations :: "string list"

text \<open>
  The \<^verbatim>\<open>for test_name, test_func in test_suite.items()\<close> loop. The state is the pair of
  \<^verbatim>\<open>results["tests"]\<close> and \<^verbatim>\<open>passed_tests\<close>. A test that raises is recorded with status
  \<^verbatim>\<open>error\<close> and the text of the exception, and the loop goes on.
\<close>

fun run_tests ::
  "(string \<times> test_func) list \<Rightarrow> (string \<times> test_result) list \<times> nat
     \<Rightarrow> (string \<times> test_result) list \<times> nat" where
  "run_tests [] state = state"
| "run_tests ((test_name, test_func) # rest) (results_tests, passed_tests) =
     (case test_func of
        Inr test_result \<Rightarrow>
          run_tests rest
            (AList.update test_name test_result results_tests,
             if map_of test_result ''status'' = Some ''passed'' then passed_tests + 1
             else passed_tests)
      | Inl e \<Rightarrow>
          run_tests rest
            (AList.update test_name [(''status'', ''error''), (''error'', str e)] results_tests,
             passed_tests))"

text \<open>The \<^verbatim>\<open>if\<close>/\<^verbatim>\<open>elif\<close> chain on \<^verbatim>\<open>success_rate\<close>.\<close>

definition status_of_success_rate :: "rat \<Rightarrow> string" where
  "status_of_success_rate success_rate =
     (if success_rate \<ge> 9 / 10 then ''excellent''
      else if success_rate \<ge> 7 / 10 then ''good''
      else if success_rate \<ge> 5 / 10 then ''fair''
      else ''poor'')"

text \<open>
  The body of \<^verbatim>\<open>run_full_test_suite\<close> after the dict \<^verbatim>\<open>test_suite\<close> is built, with
  that dict as the argument: the loop, the success rate over \<^verbatim>\<open>len(test_suite)\<close>, the
  status and the recommendations.
\<close>

definition run_suite :: "(string \<times> test_func) list \<Rightarrow> py_exception + test_report" where
  "run_suite test_suite =
     (let (results_tests, passed_tests) = run_tests test_suite ([], 0);
          total_tests = length test_suite
      in case truediv (of_nat passed_tests) (of_nat total_tests) of
           Inl e \<Rightarrow> Inl e
         | Inr success_rate \<Rightarrow>
             Inr \<lparr>overall_status = status_of_success_rate success_rate,
                  tests = results_tests,
                  recommendations = generate_recommendations results_tests\<rparr>)"

text \<open>
  The two tests of the source that read nothing and always return the same dict.
\<close>

definition run_integration_tests :: test_result where
  "run_integration_tests =
     [(''status'', ''skipped''),
      (''message'', ''Integration tests not yet implemented''),
      (''recommendation'', ''Implement AI model integration tests'')]"

definition run_performance_tests :: test_result where
  "run_performance_tests =
     [(''status'', ''skipped''),
      (''message'', ''Performance tests not yet implemented''),
      (''recommendation'', ''Add performance benchmarking'')]"

text \<open>
  The dict \<^verbatim>\<open>test_suite\<close> of the source, seven tests in its order, and
  \<^verbatim>\<open>run_full_test_suite\<close> on it. The five tests that read the file system or run a
  subprocess are arguments: what each of them evaluates to.
\<close>

definition full_test_suite ::
  "test_func \<Rightarrow> test_func \<Rightarrow> test_func \<Rightarrow> test_func \<Rightarrow> test_func
     \<Rightarrow> (string \<times> test_func) list" where
  "full_test_suite test_dependencies test_configuration run_unit_tests
       run_security_scan test_ai_models =
     [(''dependency_check'', test_dependencies),
      (''configuration_validation'', test_configuration),
      (''unit_tests'', run_unit_tests),
      (''integration_tests'', Inr run_integration_tests),
      (''performance_tests'', Inr run_performance_tests),
      (''security_scan'', run_security_scan),
      (''ai_model_tests'', test_ai_models)]"

definition run_full_test_suite ::
  "test_func \<Rightarrow> test_func \<Rightarrow> test_func \<Rightarrow> test_func \<Rightarrow> test_func
     \<Rightarrow> py_exception + test_report" where
  "run_full_test_suite test_dependencies test_configuration run_unit_tests
       run_security_scan test_ai_models =
     run_suite
       (full_test_suite test_dependencies test_configuration run_unit_tests
          run_security_scan test_ai_models)"

section \<open>HealthMonitor: the health battery\<close>

text \<open>
  The dict \<^verbatim>\<open>_perform_health_check\<close> returns. Its key \<^verbatim>\<open>response_time_ms\<close> is the field
  \<open>check_time_ms\<close> here, the key of the same name in the result of
  \<^verbatim>\<open>_check_application_health\<close> being \<open>response_time_ms\<close>.
\<close>

record check_result =
  endpoint :: string
  success :: bool
  status_code :: int
  check_time_ms :: rat
  message :: string

text \<open>
  \<^verbatim>\<open>_perform_health_check\<close> catches every exception of its request and always returns a
  dict. The network is an argument: the function from the base URL and the endpoint to
  that dict.
\<close>

type_synonym perform_health_check = "string \<Rightarrow> string \<Rightarrow> check_result"

text \<open>
  The configuration of one application, as \<^verbatim>\<open>json.load\<close> yields it: a dict whose keys
  may be absent (\<open>None\<close>). The value of \<^verbatim>\<open>health_endpoints\<close> is a list of strings or the
  JSON value \<^verbatim>\<open>null\<close>; \<^verbatim>\<open>port\<close> is kept as the text the f-string renders.
\<close>

datatype json_endpoints = JNull | JList "string list"

record app_config =
  base_url :: "string option"
  port :: "string option"
  health_endpoints :: "json_endpoints option"

subsection \<open>\<^verbatim>\<open>_check_application_health\<close>\<close>

text \<open>The text of the \<^verbatim>\<open>TypeError\<close> of a \<^verbatim>\<open>for\<close> loop over \<^verbatim>\<open>None\<close>.\<close>

definition none_not_iterable :: string where
  "none_not_iterable = [CHR 0x27] @ ''NoneType'' @ [CHR 0x27] @ '' object is not iterable''"

text \<open>
  The \<^verbatim>\<open>for endpoint in health_endpoints\<close> loop; the state is
  \<^verbatim>\<open>health_results["checks"]\<close>, \<^verbatim>\<open>total_response_time\<close> and \<^verbatim>\<open>failed_checks\<close>.
\<close>

fun check_loop ::
  "perform_health_check \<Rightarrow> string \<Rightarrow> string list \<Rightarrow> check_result list \<times> rat \<times> nat
     \<Rightarrow> check_result list \<times> rat \<times> nat" where
  "check_loop perform url [] state = state"
| "check_loop perform url (ep # rest) (checks, total_response_time, failed_checks) =
     (let check_result = perform url ep
      in check_loop perform url rest
           (checks @ [check_result],
            total_response_time + check_time_ms check_result,
            if \<not> success check_result then failed_checks + 1 else failed_checks))"

text \<open>The dict \<^verbatim>\<open>health_results\<close>, without its time stamp.\<close>

record health_results =
  status :: string
  checks :: "check_result list"
  response_time_ms :: rat

text \<open>
  Iterating over \<^verbatim>\<open>None\<close> raises \<^verbatim>\<open>TypeError\<close> before any check is made. The average is
  taken only under \<^verbatim>\<open>if health_endpoints:\<close>, and \<^verbatim>\<open>response_time_ms\<close> keeps its initial
  0 otherwise.
\<close>

definition check_application_health ::
  "perform_health_check \<Rightarrow> string \<Rightarrow> app_config \<Rightarrow> py_exception + health_results" where
  "check_application_health perform app_name app_config =
     (let url = (case base_url app_config of
                   Some u \<Rightarrow> u
                 | None \<Rightarrow> ''http://localhost:''
                     @ (case port app_config of Some p \<Rightarrow> p | None \<Rightarrow> ''8000''))
      in case (case health_endpoints app_config of
                 None \<Rightarrow> JList [''/health'']
               | Some v \<Rightarrow> v) of
           JNull \<Rightarrow> Inl (TypeError none_not_iterable)
         | JList endpoints \<Rightarrow>
             (let (cs, total_response_time, failed_checks) =
                    check_loop perform url endpoints ([], 0, 0)
              in case (if endpoints \<noteq> []
                       then truediv total_response_time (of_nat (length endpoints))
                       else Inr 0) of
                   Inl e \<Rightarrow> Inl e
                 | Inr average \<Rightarrow>
                     Inr \<lparr>status =
                            (if failed_checks = 0 then ''healthy''
                             else if of_nat failed_checks
                                       \<le> of_nat (length endpoints) * (5 / 10 :: rat)
                             then ''degraded''
                             else ''unhealthy''),
                          checks = cs,
                          response_time_ms = average\<rparr>))"

subsection \<open>\<^verbatim>\<open>monitor_all_applications\<close>\<close>

text \<open>
  A value of \<^verbatim>\<open>results["applications"]\<close>: the health results of the application, or
  the dict \<^verbatim>\<open>{"status": "error", "message": str(e)}\<close> stored when the check raised.
\<close>

datatype app_entry = Checked health_results | CheckFailed string

fun entry_status :: "app_entry \<Rightarrow> string" where
  "entry_status (Checked app_health) = status app_health"
| "entry_status (CheckFailed msg) = ''error''"

text \<open>An entry of \<^verbatim>\<open>results["alerts"]\<close>, with the keys \<^verbatim>\<open>app\<close>, \<^verbatim>\<open>status\<close>, \<^verbatim>\<open>message\<close>.\<close>

record alert =
  app :: string
  alert_status :: string
  alert_message :: string

text \<open>
  The \<^verbatim>\<open>for app_name, app_config in ... .items()\<close> loop; the state is
  \<^verbatim>\<open>results["applications"]\<close>, \<^verbatim>\<open>results["alerts"]\<close> and \<^verbatim>\<open>unhealthy_count\<close>. The health
  results have no key \<^verbatim>\<open>message\<close>, so the alert carries the default text.
\<close>

fun monitor_loop ::
  "perform_health_check \<Rightarrow> (string \<times> app_config) list
     \<Rightarrow> (string \<times> app_entry) list \<times> alert list \<times> nat
     \<Rightarrow> (string \<times> app_entry) list \<times> alert list \<times> nat" where
  "monitor_loop perform [] state = state"
| "monitor_loop perform ((app_name, app_config) # rest) (apps, alerts, unhealthy_count) =
     (case check_application_health perform app_name app_config of
        Inr app_health \<Rightarrow>
          (if status app_health \<noteq> ''healthy'' then
             monitor_loop perform rest
               (AList.update app_name (Checked app_health) apps,
                alerts @ [\<lparr>app = app_name, alert_status = status app_health,
                           alert_message = ''Application unhealthy''\<rparr>],
                unhealthy_count + 1)
           else
             monitor_loop perform rest
               (AList.update app_name (Checked app_health) apps, alerts, unhealthy_count))
      | Inl e \<Rightarrow>
          monitor_loop perform rest
            (AList.update app_name (CheckFailed (str e)) apps, alerts, unhealthy_count + 1))"

text \<open>The dict \<^verbatim>\<open>results\<close> of a monitoring cycle, without its time stamp.\<close>

record snapshot =
  snapshot_status :: string
  applications :: "(string \<times> app_entry) list"
  snapshot_alerts :: "alert list"

text \<open>
  The argument is the value of the key \<^verbatim>\<open>applications\<close> of the configuration, \<open>None\<close>
  when the key is absent (the source then takes the empty dict).
\<close>

definition monitor_all_applications ::
  "perform_health_check \<Rightarrow> (string \<times> app_config) list option \<Rightarrow> snapshot" where
  "monitor_all_applications perform config_applications =
     (let apps_config = (case config_applications of Some d \<Rightarrow> d | None \<Rightarrow> []);
          (apps, alerts, unhealthy_count) = monitor_loop perform apps_config ([], [], 0);
          total_apps = length apps_config
      in \<lparr>snapshot_status =
            (if unhealthy_count = 0 then ''healthy''
             else if of_nat unhealthy_count \<le> of_nat total_apps * (2 / 10 :: rat)
             then ''degraded''
             else ''unhealthy''),
          applications = apps,
          snapshot_alerts = alerts\<rparr>)"

section \<open>Vocabulary of the properties\<close>

text \<open>What the loop of \<^verbatim>\<open>run_full_test_suite\<close> stores for a test: its dict, or the error dict.\<close>

definition outcome :: "test_func \<Rightarrow> test_result" where
  "outcome test_func =
     (case test_func of
        Inr test_result \<Rightarrow> test_result
      | Inl e \<Rightarrow> [(''status'', ''error''), (''error'', str e)])"

definition has_status :: "string \<Rightarrow> test_result \<Rightarrow> bool" where
  "has_status s result = (map_of result ''status'' = Some s)"

definition passed :: "test_result \<Rightarrow> bool" where
  "passed result = has_status ''passed'' result"

definition skipped :: "test_result \<Rightarrow> bool" where
  "skipped result = has_status ''skipped'' result"

text \<open>The outcomes of a battery, in its order, and three counts over them.\<close>

definition outcomes :: "(string \<times> test_func) list \<Rightarrow> (string \<times> test_result) list" where
  "outcomes test_suite = map (\<lambda>(test_name, test_func). (test_name, outcome test_func)) test_suite"

definition passed_count :: "(string \<times> test_func) list \<Rightarrow> nat" where
  "passed_count test_suite = length (filter (\<lambda>(test_name, result). passed result) (outcomes test_suite))"

definition skipped_count :: "(string \<times> test_func) list \<Rightarrow> nat" where
  "skipped_count test_suite = length (filter (\<lambda>(test_name, result). skipped result) (outcomes test_suite))"

definition not_passed_count :: "(string \<times> test_func) list \<Rightarrow> nat" where
  "not_passed_count test_suite =
     length (filter (\<lambda>(test_name, result). \<not> passed result) (outcomes test_suite))"

text \<open>
  The aggregation rule in the words of the specification (its section 4.2), to compare
  the code with: the failure ratio counts failed and error outcomes over the outcomes
  that are not skipped, a battery with nothing but skipped outcomes is \<^verbatim>\<open>unknown\<close>, and
  the quality scale has the cutoffs 0, 0.1 and 0.3.
\<close>

definition spec_failure_ratio :: "(string \<times> test_result) list \<Rightarrow> rat" where
  "spec_failure_ratio results =
     of_nat (length (filter (\<lambda>(test_name, result).
                has_status ''failed'' result \<or> has_status ''error'' result) results))
     / of_nat (length (filter (\<lambda>(test_name, result). \<not> skipped result) results))"

definition spec_quality_tier :: "rat \<Rightarrow> string" where
  "spec_quality_tier ratio =
     (if ratio \<le> 0 then ''excellent''
      else if ratio \<le> 1 / 10 then ''good''
      else if ratio \<le> 3 / 10 then ''fair''
      else ''poor'')"

definition spec_verdict :: "(string \<times> test_result) list \<Rightarrow> string" where
  "spec_verdict results =
     (if filter (\<lambda>(test_name, result). \<not> skipped result) results = [] then ''unknown''
      else spec_quality_tier (spec_failure_ratio results))"

text \<open>The recommendation one outcome contributes, if any.\<close>

definition recommendation_of :: "string \<times> test_result \<Rightarrow> string option" where
  "recommendation_of entry =
     (case entry of (test_name, result) \<Rightarrow>
        if has_status ''failed'' result then
          Some (red_circle @ '' Fix '' @ test_name @ '': ''
                  @ get_default result ''error'' ''Unknown error'')
        else if has_status ''skipped'' result then
          Some (warning_sign @ '' Implement '' @ test_name @ '': ''
                  @ get_default result ''recommendation'' ''Not implemented'')
        else map_option (\<lambda>text. light_bulb @ '' '' @ text) (map_of result ''recommendation''))"

text \<open>The entry \<^verbatim>\<open>monitor_all_applications\<close> stores for one application.\<close>

definition app_entry_of :: "perform_health_check \<Rightarrow> string \<Rightarrow> app_config \<Rightarrow> app_entry" where
  "app_entry_of perform app_name app_config =
     (case check_application_health perform app_name app_config of
        Inr app_health \<Rightarrow> Checked app_health
      | Inl e \<Rightarrow> CheckFailed (str e))"

definition non_healthy :: "(string \<times> app_entry) list \<Rightarrow> (string \<times> app_entry) list" where
  "non_healthy apps = filter (\<lambda>(app_name, entry). entry_status entry \<noteq> ''healthy'') apps"

definition failed_checks_of :: "check_result list \<Rightarrow> nat" where
  "failed_checks_of cs = length (filter (\<lambda>c. \<not> success c) cs)"

subsection \<open>Concrete inputs\<close>

text \<open>Dicts that the tests of the source return.\<close>

definition dependencies_passed :: test_result where
  "dependencies_passed =
     [(''status'', ''passed''), (''message'', ''All dependencies can be installed'')]"

definition dependencies_failed :: test_result where
  "dependencies_failed = [(''status'', ''failed''), (''error'', ''No requirements.txt found'')]"

definition configuration_passed :: test_result where
  "configuration_passed =
     [(''status'', ''passed''), (''found_configs'', ''[config.yaml]''),
      (''env_vars_documented'', ''True'')]"

definition unit_tests_passed :: test_result where
  "unit_tests_passed = [(''status'', ''passed''), (''output'', ''1 passed'')]"

definition unit_tests_skipped :: test_result where
  "unit_tests_skipped =
     [(''status'', ''skipped''), (''message'', ''No test directory found''),
      (''recommendation'', ''Add unit tests'')]"

definition security_passed :: test_result where
  "security_passed =
     [(''status'', ''passed''), (''message'', ''No security vulnerabilities found'')]"

definition security_failed :: test_result where
  "security_failed = [(''status'', ''failed''), (''vulnerabilities'', ''CVE-1234'')]"

definition ai_models_passed :: test_result where
  "ai_models_passed =
     [(''status'', ''passed''), (''frameworks_detected'', ''[]''),
      (''recommendation'', ''Implement AI model response testing with mocks'')]"

text \<open>A network on which every endpoint but \<^verbatim>\<open>/down\<close> answers 200 in 5 ms.\<close>

definition example_network :: perform_health_check where
  "example_network url ep =
     (if ep = ''/down''
      then \<lparr>endpoint = ep, success = False, status_code = 503, check_time_ms = 7,
            message = ''HTTP 503''\<rparr>
      else \<lparr>endpoint = ep, success = True, status_code = 200, check_time_ms = 5,
            message = ''OK''\<rparr>)"

definition app_with_endpoints :: "json_endpoints option \<Rightarrow> app_config" where
  "app_with_endpoints eps = \<lparr>base_url = None, port = None, health_endpoints = eps\<rparr>"

text \<open>Batteries to evaluate the code on.\<close>

definition two_passed_two_skipped :: "(string \<times> test_func) list" where
  "two_passed_two_skipped =
     [(''dependency_check'', Inr dependencies_passed),
      (''unit_tests'', Inr unit_tests_skipped),
      (''integration_tests'', Inr run_integration_tests),
      (''security_scan'', Inr security_passed)]"

definition nine_passed_one_failed :: "(string \<times> test_func) list" where
  "nine_passed_one_failed =
     [(''t0'', Inr dependencies_passed), (''t1'', Inr dependencies_passed),
      (''t2'', Inr dependencies_passed), (''t3'', Inr dependencies_passed),
      (''t4'', Inr dependencies_passed), (''t5'', Inr dependencies_passed),
      (''t6'', Inr dependencies_passed), (''t7'', Inr dependencies_passed),
      (''t8'', Inr dependencies_passed), (''t9'', Inr dependencies_failed)]"

text \<open>
  The base URL and the endpoints \<^verbatim>\<open>_check_application_health\<close> reads from a
  configuration, and the checks it then makes.
\<close>

definition url_of :: "app_config \<Rightarrow> string" where
  "url_of app_config =
     (case base_url app_config of
        Some u \<Rightarrow> u
      | None \<Rightarrow> ''http://localhost:''
          @ (case port app_config of Some p \<Rightarrow> p | None \<Rightarrow> ''8000''))"

definition endpoints_of :: "app_config \<Rightarrow> json_endpoints" where
  "endpoints_of app_config =
     (case health_endpoints app_config of None \<Rightarrow> JList [''/health''] | Some v \<Rightarrow> v)"

text \<open>The entries and the alerts one monitoring cycle derives from the applications.\<close>

definition entries ::
  "perform_health_check \<Rightarrow> (string \<times> app_config) list \<Rightarrow> (string \<times> app_entry) list" where
  "entries perform apps_config =
     map (\<lambda>(app_name, app_config). (app_name, app_entry_of perform app_name app_config))
       apps_config"

definition alerts_for :: "perform_health_check \<Rightarrow> string \<times> app_config \<Rightarrow> alert list" where
  "alerts_for perform item =
     (case item of (app_name, app_config) \<Rightarrow>
        (case check_application_health perform app_name app_config of
           Inr app_health \<Rightarrow>
             if status app_health \<noteq> ''healthy''
             then [\<lparr>app = app_name, alert_status = status app_health,
                    alert_message = ''Application unhealthy''\<rparr>]
             else []
         | Inl e \<Rightarrow> []))"

text \<open>Applications to evaluate the code on.\<close>

definition five_apps_one_unhealthy :: "(string \<times> app_config) list" where
  "five_apps_one_unhealthy =
     [(''chat'', app_with_endpoints None),
      (''search'', app_with_endpoints (Some (JList [''/health'']))),
      (''vision'', app_with_endpoints (Some (JList [''/down'']))),
      (''voice'', app_with_endpoints (Some (JList [''/health'', ''/ready'']))),
      (''agent'', app_with_endpoints (Some (JList [])))]"

definition one_app_null_endpoints :: "(string \<times> app_config) list" where
  "one_app_null_endpoints = [(''chat'', app_with_endpoints (Some JNull))]"

definition healthy_and_faulty_apps :: "(string \<times> app_config) list" where
  "healthy_and_faulty_apps =
     [(''chat'', app_with_endpoints (Some JNull)),
      (''search'', app_with_endpoints (Some (JList [''/health''])))]"

definition all_skipped :: "(string \<times> test_func) list" where
  "all_skipped =
     [(''integration_tests'', Inr run_integration_tests),
      (''performance_tests'', Inr run_performance_tests)]"

definition faulty_among_healthy :: "(string \<times> test_func) list" where
  "faulty_among_healthy =
     [(''dependency_check'', Inr dependencies_passed),
      (''security_scan'', Inl (Exception ''RuntimeError'' ''scanner crashed'')),
      (''ai_model_tests'', Inr ai_models_passed)]"

section \<open>Lemmas on the iterations\<close>

lemma run_tests_step:
  "run_tests ((n, f) # rest) (ts, p) =
     run_tests rest (AList.update n (outcome f) ts, if passed (outcome f) then p + 1 else p)"
  by (cases f) (simp_all add: outcome_def passed_def has_status_def)

lemma update_fresh: "n \<notin> fst ` set ts \<Longrightarrow> AList.update n v ts = ts @ [(n, v)]"
  by (induction ts) auto

lemma run_tests_fst:
  "distinct (map fst s) \<Longrightarrow> fst ` set s \<inter> fst ` set ts = {} \<Longrightarrow>
   fst (run_tests s (ts, p)) = ts @ outcomes s"
proof (induction s arbitrary: ts p)
  case Nil
  then show ?case by (simp add: outcomes_def)
next
  case (Cons a s)
  obtain n f where a: "a = (n, f)" by (cases a)
  from Cons.prems a have fresh: "n \<notin> fst ` set ts" by auto
  have d: "distinct (map fst s)" using Cons.prems by simp
  have disj: "fst ` set s \<inter> fst ` set (ts @ [(n, outcome f)]) = {}"
    using Cons.prems a by auto
  show ?case
    unfolding a run_tests_step update_fresh [OF fresh]
    using Cons.IH [OF d disj] by (simp add: outcomes_def)
qed

lemma run_tests_snd:
  "snd (run_tests s (ts, p)) = p + passed_count s"
proof (induction s arbitrary: ts p)
  case Nil
  then show ?case by (simp add: passed_count_def outcomes_def)
next
  case (Cons a s)
  obtain n f where a: "a = (n, f)" by (cases a)
  show ?case unfolding a run_tests_step
    by (simp add: Cons.IH) (simp add: passed_count_def outcomes_def)
qed

lemma run_suite_empty: "run_suite [] = Inl ZeroDivisionError"
  by (simp add: run_suite_def truediv_def)

lemma run_suite_nonempty:
  assumes "test_suite \<noteq> []"
  shows "run_suite test_suite =
           Inr \<lparr>overall_status =
                  status_of_success_rate
                    (of_nat (passed_count test_suite) / of_nat (length test_suite)),
                tests = fst (run_tests test_suite ([], 0)),
                recommendations = generate_recommendations (fst (run_tests test_suite ([], 0)))\<rparr>"
proof -
  obtain ts p where rt: "run_tests test_suite ([], 0) = (ts, p)"
    by (cases "run_tests test_suite ([], 0)")
  have p: "p = passed_count test_suite"
    using run_tests_snd [of test_suite "[]" 0] rt by simp
  have n: "(of_nat (length test_suite) :: rat) \<noteq> 0" using assms by simp
  show ?thesis
    unfolding run_suite_def rt using n p by (simp add: truediv_def)
qed

lemma run_suite_tests:
  assumes "distinct (map fst test_suite)" and "run_suite test_suite = Inr r"
  shows "tests r = outcomes test_suite"
proof -
  have ne: "test_suite \<noteq> []"
    using assms(2) by (auto simp: run_suite_empty)
  have "fst (run_tests test_suite ([], 0)) = outcomes test_suite"
    using run_tests_fst [OF assms(1), of "[]" 0] by simp
  then show ?thesis
    using assms(2) unfolding run_suite_nonempty [OF ne] by auto
qed

lemma map_fst_outcomes: "map fst (outcomes s) = map fst s"
  by (simp add: outcomes_def case_prod_unfold)

lemma map_of_outcomes:
  assumes "distinct (map fst s)" and "(n, f) \<in> set s"
  shows "map_of (outcomes s) n = Some (outcome f)"
proof (rule map_of_is_SomeI)
  show "distinct (map fst (outcomes s))" using assms(1) by (simp add: map_fst_outcomes)
  show "(n, outcome f) \<in> set (outcomes s)"
    using assms(2) by (force simp: outcomes_def)
qed

lemma counts_sum: "passed_count s + not_passed_count s = length s"
  unfolding passed_count_def not_passed_count_def
  using sum_length_filter_compl [of "\<lambda>(test_name, result). passed result" "outcomes s"]
  by (simp add: outcomes_def case_prod_unfold)

subsection \<open>Ratios of counts\<close>

lemma rate_ge_iff:
  fixes p n a b :: nat
  assumes "0 < n" "0 < b"
  shows "(of_nat a / of_nat b :: rat) \<le> of_nat p / of_nat n \<longleftrightarrow> a * n \<le> b * p"
proof -
  have "(of_nat a / of_nat b :: rat) \<le> of_nat p / of_nat n
          \<longleftrightarrow> (of_nat a * of_nat n :: rat) \<le> of_nat b * of_nat p"
    using assms by (simp add: field_simps)
  also have "\<dots> \<longleftrightarrow> (of_nat (a * n) :: rat) \<le> of_nat (b * p)" by simp
  also have "\<dots> \<longleftrightarrow> a * n \<le> b * p" by (simp only: of_nat_le_iff)
  finally show ?thesis .
qed

lemma ratio_le_iff:
  fixes q n a b :: nat
  assumes "0 < n" "0 < b"
  shows "(of_nat q / of_nat n :: rat) \<le> of_nat a / of_nat b \<longleftrightarrow> b * q \<le> a * n"
  using rate_ge_iff [OF assms(2) assms(1), of q a] by (simp add: mult.commute)

lemma status_of_success_rate_nat:
  assumes "0 < n"
  shows "status_of_success_rate (of_nat p / of_nat n) =
           (if 9 * n \<le> 10 * p then ''excellent''
            else if 7 * n \<le> 10 * p then ''good''
            else if 5 * n \<le> 10 * p then ''fair''
            else ''poor'')"
  using rate_ge_iff [of n 10 9 p] rate_ge_iff [of n 10 7 p] rate_ge_iff [of n 10 5 p] assms
  by (simp add: status_of_success_rate_def)

lemmas test_inputs =
  dependencies_passed_def dependencies_failed_def configuration_passed_def
  unit_tests_passed_def unit_tests_skipped_def security_passed_def security_failed_def
  ai_models_passed_def run_integration_tests_def run_performance_tests_def

lemmas test_vocabulary =
  outcomes_def outcome_def passed_def skipped_def has_status_def
  passed_count_def skipped_count_def not_passed_count_def

section \<open>The test battery: verdict\<close>

text \<open>
  Claim C1, as the specification states it: the failure ratio leaves the skipped
  outcomes out of its denominator, so a battery of 2 skipped and 2 passed outcomes gets
  the best tier. The code does not: \<^verbatim>\<open>success_rate = passed_tests / total_tests\<close> divides
  by the number of all tests. The battery of the claim gets \<^verbatim>\<open>fair\<close> where the rule of
  the specification gives \<^verbatim>\<open>excellent\<close>, and the seven tests of the source, with every
  test passing that can pass, get \<^verbatim>\<open>good\<close>.
\<close>

theorem C1_counterexample:
  "map_sum id overall_status (run_suite two_passed_two_skipped) = Inr ''fair''
   \<and> spec_verdict (outcomes two_passed_two_skipped) = ''excellent''
   \<and> map_sum id overall_status
        (run_full_test_suite (Inr dependencies_passed) (Inr configuration_passed)
           (Inr unit_tests_passed) (Inr security_passed) (Inr ai_models_passed))
       = Inr ''good''"
  by (simp add: run_suite_def run_full_test_suite_def full_test_suite_def
      two_passed_two_skipped_def truediv_def status_of_success_rate_def
      spec_verdict_def spec_quality_tier_def spec_failure_ratio_def
      test_inputs test_vocabulary)

text \<open>
  Claim C1, amended: the verdict is a function of the success ratio
  \<^verbatim>\<open>passed / total\<close>, in which the skipped outcomes stay in the denominator. For every
  non-empty battery whose outcomes are all passed or skipped, the call returns and the
  verdict is \<^verbatim>\<open>excellent\<close> while at most 10% of the outcomes are skipped, \<^verbatim>\<open>good\<close> up
  to 30%, \<^verbatim>\<open>fair\<close> up to 50% and \<^verbatim>\<open>poor\<close> beyond; 2 skipped and 2 passed out of 4
  give \<^verbatim>\<open>fair\<close>.
\<close>

theorem C1_skipped_stay_in_denominator:
  assumes "test_suite \<noteq> []"
    and "\<forall>(test_name, test_func) \<in> set test_suite.
           passed (outcome test_func) \<or> skipped (outcome test_func)"
  shows "\<exists>r. run_suite test_suite = Inr r
           \<and> overall_status r =
               (if 10 * skipped_count test_suite \<le> length test_suite then ''excellent''
                else if 10 * skipped_count test_suite \<le> 3 * length test_suite then ''good''
                else if 10 * skipped_count test_suite \<le> 5 * length test_suite then ''fair''
                else ''poor'')"
proof -
  have ps: "passed r \<Longrightarrow> \<not> skipped r" for r
    by (auto simp: passed_def skipped_def has_status_def)
  have "filter (\<lambda>(test_name, result). \<not> passed result) (outcomes test_suite)
          = filter (\<lambda>(test_name, result). skipped result) (outcomes test_suite)"
    using assms(2) ps by (intro filter_cong) (auto simp: outcomes_def)
  then have "not_passed_count test_suite = skipped_count test_suite"
    by (simp add: not_passed_count_def skipped_count_def)
  then have sum: "passed_count test_suite + skipped_count test_suite = length test_suite"
    using counts_sum [of test_suite] by simp
  have pos: "0 < length test_suite" using assms(1) by simp
  show ?thesis
    unfolding run_suite_nonempty [OF assms(1)] status_of_success_rate_nat [OF pos]
    using sum by auto
qed

theorem C1_witness:
  "two_passed_two_skipped \<noteq> []
   \<and> list_all (\<lambda>(test_name, test_func). passed (outcome test_func) \<or> skipped (outcome test_func))
        two_passed_two_skipped
   \<and> skipped_count two_passed_two_skipped = 2
   \<and> (\<exists>r. run_suite two_passed_two_skipped = Inr r \<and> overall_status r = ''fair'')"
proof -
  have ne: "two_passed_two_skipped \<noteq> []"
    by (simp add: two_passed_two_skipped_def)
  have all: "\<forall>(test_name, test_func) \<in> set two_passed_two_skipped.
               passed (outcome test_func) \<or> skipped (outcome test_func)"
    by (simp add: two_passed_two_skipped_def test_inputs test_vocabulary)
  have count: "skipped_count two_passed_two_skipped = 2"
    by (simp add: two_passed_two_skipped_def test_inputs test_vocabulary)
  have len: "length two_passed_two_skipped = 4"
    by (simp add: two_passed_two_skipped_def)
  show ?thesis
    using ne all C1_skipped_stay_in_denominator [OF ne all] unfolding count len
    by (simp add: list_all_iff)
qed

text \<open>
  Claim C2: the result of the batch holds exactly one outcome per test of the battery,
  under the names of the tests and in their order, whatever the tests do (return any
  dict, or raise). The names of a battery are the keys of a dict, hence distinct. The
  call returns for every battery that is not empty; the battery of the source has seven
  tests.
\<close>

theorem C2_one_outcome_per_probe:
  assumes "distinct (map fst test_suite)"
  shows "(\<forall>r. run_suite test_suite = Inr r \<longrightarrow>
            length (tests r) = length test_suite \<and> map fst (tests r) = map fst test_suite)
         \<and> (test_suite \<noteq> [] \<longrightarrow> (\<exists>r. run_suite test_suite = Inr r))"
proof (intro conjI allI impI)
  fix r assume r: "run_suite test_suite = Inr r"
  have t: "tests r = outcomes test_suite" by (rule run_suite_tests [OF assms r])
  show "length (tests r) = length test_suite" unfolding t by (simp add: outcomes_def)
  show "map fst (tests r) = map fst test_suite" unfolding t by (rule map_fst_outcomes)
next
  assume "test_suite \<noteq> []"
  then show "\<exists>r. run_suite test_suite = Inr r"
    by (simp add: run_suite_nonempty)
qed

theorem C2_witness:
  "\<exists>r. run_full_test_suite (Inr dependencies_failed) (Inl (Exception ''OSError'' ''disk''))
          (Inr unit_tests_skipped) (Inl (Exception ''TimeoutError'' ''timeout''))
          (Inr ai_models_passed) = Inr r
        \<and> length (tests r) = 7
        \<and> map fst (tests r) =
            [''dependency_check'', ''configuration_validation'', ''unit_tests'',
             ''integration_tests'', ''performance_tests'', ''security_scan'',
             ''ai_model_tests'']"
proof -
  define s where "s = full_test_suite (Inr dependencies_failed) (Inl (Exception ''OSError'' ''disk''))
              (Inr unit_tests_skipped) (Inl (Exception ''TimeoutError'' ''timeout''))
              (Inr ai_models_passed)"
  have d: "distinct (map fst s)" by (simp add: s_def full_test_suite_def)
  have ne: "s \<noteq> []" by (simp add: s_def full_test_suite_def)
  have names: "map fst s =
      [''dependency_check'', ''configuration_validation'', ''unit_tests'',
       ''integration_tests'', ''performance_tests'', ''security_scan'', ''ai_model_tests'']"
    by (simp add: s_def full_test_suite_def)
  have len: "length s = 7" by (simp add: s_def full_test_suite_def)
  note main = C2_one_outcome_per_probe [OF d]
  from main ne obtain r where r: "run_suite s = Inr r" by auto
  with main have "length (tests r) = length s \<and> map fst (tests r) = map fst s" by auto
  with r names len show ?thesis
    unfolding run_full_test_suite_def s_def [symmetric] by auto
qed

text \<open>
  Claim C4, as the specification states it: failure ratio 0 gives \<^verbatim>\<open>excellent\<close>, up to
  0.1 \<^verbatim>\<open>good\<close>, up to 0.3 \<^verbatim>\<open>fair\<close>, \<^verbatim>\<open>poor\<close> beyond. The cutoffs of the code sit one
  tier lower: nine tests passed and one failed, a failure ratio of 0.1, is \<^verbatim>\<open>excellent\<close>
  in the code and \<^verbatim>\<open>good\<close> in the claim. On the seven tests of the source, with the unit
  tests skipped and the four other tests that can pass passing, no outcome is failed, the
  claim gives \<^verbatim>\<open>excellent\<close> and the code \<^verbatim>\<open>fair\<close>.
\<close>

theorem C4_counterexample:
  "map_sum id overall_status (run_suite nine_passed_one_failed) = Inr ''excellent''
   \<and> spec_failure_ratio (outcomes nine_passed_one_failed) = 1 / 10
   \<and> spec_quality_tier (spec_failure_ratio (outcomes nine_passed_one_failed)) = ''good''
   \<and> map_sum id overall_status
        (run_full_test_suite (Inr dependencies_passed) (Inr configuration_passed)
           (Inr unit_tests_skipped) (Inr security_passed) (Inr ai_models_passed))
       = Inr ''fair''
   \<and> spec_quality_tier
        (spec_failure_ratio
           (outcomes (full_test_suite (Inr dependencies_passed) (Inr configuration_passed)
              (Inr unit_tests_skipped) (Inr security_passed) (Inr ai_models_passed))))
       = ''excellent''"
  by (simp add: run_suite_def run_full_test_suite_def full_test_suite_def
      nine_passed_one_failed_def truediv_def status_of_success_rate_def
      spec_quality_tier_def spec_failure_ratio_def test_inputs test_vocabulary)

text \<open>
  Claim C4, amended: the verdict of a non-empty battery is selected by the ratio of the
  outcomes that are not passed (failed, error, skipped or any other status) to all
  outcomes, with the cutoffs of the code: at most 0.1 gives \<^verbatim>\<open>excellent\<close>, at most 0.3
  \<^verbatim>\<open>good\<close>, at most 0.5 \<^verbatim>\<open>fair\<close>, and any higher ratio \<^verbatim>\<open>poor\<close>. The scale has these
  four tiers.
\<close>

theorem C4_not_passed_ratio_selects_status:
  assumes "test_suite \<noteq> []"
  shows "\<exists>r. run_suite test_suite = Inr r
           \<and> overall_status r =
               (let ratio = (of_nat (not_passed_count test_suite)
                               / of_nat (length test_suite) :: rat)
                in if ratio \<le> 1 / 10 then ''excellent''
                   else if ratio \<le> 3 / 10 then ''good''
                   else if ratio \<le> 5 / 10 then ''fair''
                   else ''poor'')"
proof -
  define n where "n = length test_suite"
  define p where "p = passed_count test_suite"
  define q where "q = not_passed_count test_suite"
  have sum: "p + q = n" unfolding p_def q_def n_def by (rule counts_sum)
  have npos: "0 < n" using assms by (simp add: n_def)
  have a: "(of_nat q / of_nat n :: rat) \<le> 1 / 10 \<longleftrightarrow> 10 * q \<le> n"
    using ratio_le_iff [OF npos, of 10 q 1] by simp
  have b: "(of_nat q / of_nat n :: rat) \<le> 3 / 10 \<longleftrightarrow> 10 * q \<le> 3 * n"
    using ratio_le_iff [OF npos, of 10 q 3] by simp
  have c: "(of_nat q / of_nat n :: rat) \<le> 5 / 10 \<longleftrightarrow> 10 * q \<le> 5 * n"
    using ratio_le_iff [OF npos, of 10 q 5] by simp
  have code: "status_of_success_rate (of_nat p / of_nat n) =
           (if 10 * q \<le> n then ''excellent''
            else if 10 * q \<le> 3 * n then ''good''
            else if 10 * q \<le> 5 * n then ''fair''
            else ''poor'')"
    unfolding status_of_success_rate_nat [OF npos] using sum by auto
  show ?thesis
    unfolding run_suite_nonempty [OF assms] Let_def
    using a b c code by (simp add: n_def p_def q_def)
qed

theorem C4_witness:
  "nine_passed_one_failed \<noteq> []
   \<and> (\<exists>r. run_suite nine_passed_one_failed = Inr r \<and> overall_status r = ''excellent'')"
proof -
  have ne: "nine_passed_one_failed \<noteq> []"
    by (simp add: nine_passed_one_failed_def)
  have count: "not_passed_count nine_passed_one_failed = 1"
    by (simp add: nine_passed_one_failed_def test_inputs test_vocabulary)
  have len: "length nine_passed_one_failed = 10"
    by (simp add: nine_passed_one_failed_def)
  show ?thesis
    using ne C4_not_passed_ratio_selects_status [OF ne] unfolding count len by simp
qed

section \<open>Lemmas on the health battery\<close>

lemma check_loop_eq:
  "check_loop perform url eps (cs, t, f) =
     (cs @ map (perform url) eps,
      t + sum_list (map (\<lambda>ep. check_time_ms (perform url ep)) eps),
      f + failed_checks_of (map (perform url) eps))"
  by (induction eps arbitrary: cs t f) (simp_all add: failed_checks_of_def Let_def)

lemma check_application_health_null:
  assumes "endpoints_of app_config = JNull"
  shows "check_application_health perform app_name app_config = Inl (TypeError none_not_iterable)"
  using assms by (simp add: check_application_health_def endpoints_of_def)

lemma check_application_health_list:
  assumes "endpoints_of app_config = JList eps"
  shows "check_application_health perform app_name app_config =
           Inr \<lparr>status =
                  (if failed_checks_of (map (perform (url_of app_config)) eps) = 0 then ''healthy''
                   else if 2 * failed_checks_of (map (perform (url_of app_config)) eps) \<le> length eps
                   then ''degraded''
                   else ''unhealthy''),
                checks = map (perform (url_of app_config)) eps,
                response_time_ms =
                  (if eps = [] then 0
                   else sum_list (map (\<lambda>ep. check_time_ms (perform (url_of app_config) ep)) eps)
                          / of_nat (length eps))\<rparr>"
proof -
  have half: "(of_nat k :: rat) \<le> of_nat n * (5 / 10) \<longleftrightarrow> 2 * k \<le> n" for k n :: nat
  proof -
    have "(of_nat k :: rat) \<le> of_nat n * (5 / 10) \<longleftrightarrow> (of_nat (2 * k) :: rat) \<le> of_nat n"
      by (simp add: field_simps)
    also have "\<dots> \<longleftrightarrow> 2 * k \<le> n" by (simp only: of_nat_le_iff)
    finally show ?thesis .
  qed
  have e: "(case health_endpoints app_config of None \<Rightarrow> JList [''/health''] | Some v \<Rightarrow> v)
             = JList eps"
    using assms by (simp add: endpoints_of_def)
  show ?thesis
    unfolding check_application_health_def e url_of_def [symmetric]
    by (simp add: check_loop_eq truediv_def half Let_def)
qed

lemma endpoints_cases:
  assumes "health_endpoints app_config \<noteq> Some JNull"
  obtains eps where "endpoints_of app_config = JList eps"
  using assms
  by (cases "health_endpoints app_config"; cases "the (health_endpoints app_config)")
     (auto simp: endpoints_of_def)

lemma monitor_loop_step:
  "monitor_loop perform ((n, c) # rest) (apps, al, k) =
     monitor_loop perform rest
       (AList.update n (app_entry_of perform n c) apps,
        al @ alerts_for perform (n, c),
        if entry_status (app_entry_of perform n c) \<noteq> ''healthy'' then k + 1 else k)"
  by (cases "check_application_health perform n c")
     (simp_all add: app_entry_of_def alerts_for_def)

lemma monitor_loop_eq:
  "distinct (map fst s) \<Longrightarrow> fst ` set s \<inter> fst ` set apps = {} \<Longrightarrow>
   monitor_loop perform s (apps, al, k) =
     (apps @ entries perform s,
      al @ concat (map (alerts_for perform) s),
      k + length (non_healthy (entries perform s)))"
proof (induction s arbitrary: apps al k)
  case Nil
  then show ?case by (simp add: entries_def non_healthy_def)
next
  case (Cons a s)
  obtain n c where a: "a = (n, c)" by (cases a)
  from Cons.prems a have fresh: "n \<notin> fst ` set apps" by auto
  have d: "distinct (map fst s)" using Cons.prems by simp
  have disj: "fst ` set s \<inter> fst ` set (apps @ [(n, app_entry_of perform n c)]) = {}"
    using Cons.prems a by auto
  show ?case
    unfolding a monitor_loop_step update_fresh [OF fresh]
    by (simp add: Cons.IH [OF d disj] entries_def non_healthy_def)
qed

lemma monitor_all_applications_eq:
  assumes "distinct (map fst apps)"
  shows "monitor_all_applications perform (Some apps) =
           \<lparr>snapshot_status =
              (if length (non_healthy (entries perform apps)) = 0 then ''healthy''
               else if 5 * length (non_healthy (entries perform apps)) \<le> length apps
               then ''degraded''
               else ''unhealthy''),
            applications = entries perform apps,
            snapshot_alerts = concat (map (alerts_for perform) apps)\<rparr>"
proof -
  have fifth: "(of_nat k :: rat) \<le> of_nat n * (2 / 10) \<longleftrightarrow> 5 * k \<le> n" for k n :: nat
  proof -
    have "(of_nat k :: rat) \<le> of_nat n * (2 / 10) \<longleftrightarrow> (of_nat (5 * k) :: rat) \<le> of_nat n"
      by (simp add: field_simps)
    also have "\<dots> \<longleftrightarrow> 5 * k \<le> n" by (simp only: of_nat_le_iff)
    finally show ?thesis .
  qed
  have loop: "monitor_loop perform apps ([], [], 0) =
     (entries perform apps, concat (map (alerts_for perform) apps),
      length (non_healthy (entries perform apps)))"
    using monitor_loop_eq [OF assms, of "[]" perform "[]" 0] by simp
  show ?thesis
    unfolding monitor_all_applications_def by (simp add: loop fifth)
qed

lemma length_entries: "length (entries perform apps) = length apps"
  by (simp add: entries_def)

lemma map_of_entries:
  assumes "distinct (map fst apps)" and "(n, c) \<in> set apps"
  shows "map_of (entries perform apps) n = Some (app_entry_of perform n c)"
proof (rule map_of_is_SomeI)
  show "distinct (map fst (entries perform apps))"
    using assms(1) by (simp add: entries_def case_prod_unfold comp_def)
  show "(n, app_entry_of perform n c) \<in> set (entries perform apps)"
    using assms(2) by (force simp: entries_def)
qed

subsection \<open>The recommendations loop\<close>

lemma recommendations_loop_eq:
  "recommendations_loop test_results acc = acc @ List.map_filter recommendation_of test_results"
proof (induction test_results arbitrary: acc)
  case Nil
  then show ?case by (simp add: List.map_filter_simps)
next
  case (Cons a test_results)
  obtain test_name result where a: "a = (test_name, result)" by (cases a)
  show ?case
    unfolding a
    by (cases "map_of result ''recommendation''")
       (simp_all add: Cons.IH List.map_filter_simps recommendation_of_def has_status_def)
qed

section \<open>Fault isolation\<close>

text \<open>
  Claim C3: a test that raises does not stop the batch. The call returns, the outcome of
  that test is the dict with status \<^verbatim>\<open>error\<close> and the text of the exception, and every
  test of the battery that returns a dict has that dict as its outcome. The same holds
  for a monitoring cycle: an application whose check raises is entered with status
  \<^verbatim>\<open>error\<close> and the text of the exception, and every application whose check returns
  is entered with its health results. The names are the keys of a dict, hence distinct.
\<close>

theorem C3_fault_is_isolated:
  "(distinct (map fst test_suite) \<and> (test_name, Inl e) \<in> set test_suite \<longrightarrow>
      (\<exists>r. run_suite test_suite = Inr r
         \<and> map_of (tests r) test_name = Some [(''status'', ''error''), (''error'', str e)]
         \<and> (\<forall>other result. (other, Inr result) \<in> set test_suite
               \<longrightarrow> map_of (tests r) other = Some result)))
   \<and> (distinct (map fst apps) \<and> (app_name, app_config) \<in> set apps
        \<and> check_application_health perform app_name app_config = Inl e' \<longrightarrow>
      map_of (applications (monitor_all_applications perform (Some apps))) app_name
        = Some (CheckFailed (str e'))
      \<and> (\<forall>other config app_health.
            (other, config) \<in> set apps
            \<and> check_application_health perform other config = Inr app_health
            \<longrightarrow> map_of (applications (monitor_all_applications perform (Some apps))) other
                  = Some (Checked app_health)))"
proof -
  have tester: "\<exists>r. run_suite test_suite = Inr r
         \<and> map_of (tests r) test_name = Some [(''status'', ''error''), (''error'', str e)]
         \<and> (\<forall>other result. (other, Inr result) \<in> set test_suite
               \<longrightarrow> map_of (tests r) other = Some result)"
    if d: "distinct (map fst test_suite)" and m: "(test_name, Inl e) \<in> set test_suite"
  proof -
    from m have ne: "test_suite \<noteq> []" by auto
    obtain r where r: "run_suite test_suite = Inr r"
      by (simp add: run_suite_nonempty [OF ne])
    have t: "tests r = outcomes test_suite" by (rule run_suite_tests [OF d r])
    have 1: "map_of (tests r) test_name = Some [(''status'', ''error''), (''error'', str e)]"
      unfolding t using map_of_outcomes [OF d m] by (simp add: outcome_def)
    have 2: "\<forall>other result. (other, Inr result) \<in> set test_suite
                \<longrightarrow> map_of (tests r) other = Some result"
      unfolding t using map_of_outcomes [OF d] by (auto simp: outcome_def)
    show ?thesis by (rule exI [of _ r]) (intro conjI r 1 2)
  qed
  have monitor: "map_of (applications (monitor_all_applications perform (Some apps))) app_name
        = Some (CheckFailed (str e'))
      \<and> (\<forall>other config app_health.
            (other, config) \<in> set apps
            \<and> check_application_health perform other config = Inr app_health
            \<longrightarrow> map_of (applications (monitor_all_applications perform (Some apps))) other
                  = Some (Checked app_health))"
    if d: "distinct (map fst apps)" and m: "(app_name, app_config) \<in> set apps"
      and c: "check_application_health perform app_name app_config = Inl e'"
  proof -
    have apps: "applications (monitor_all_applications perform (Some apps)) = entries perform apps"
      by (simp add: monitor_all_applications_eq [OF d])
    show ?thesis
      unfolding apps
      using map_of_entries [OF d m, of perform] c map_of_entries [OF d, of _ _ perform]
      by (auto simp: app_entry_of_def)
  qed
  show ?thesis using tester monitor by blast
qed

theorem C3_witness:
  "(\<exists>r. run_suite faulty_among_healthy = Inr r
      \<and> map_of (tests r) ''security_scan''
          = Some [(''status'', ''error''), (''error'', ''scanner crashed'')]
      \<and> map_of (tests r) ''dependency_check'' = Some dependencies_passed
      \<and> map_of (tests r) ''ai_model_tests'' = Some ai_models_passed)
   \<and> map_of (applications (monitor_all_applications example_network (Some healthy_and_faulty_apps)))
        ''chat'' = Some (CheckFailed none_not_iterable)
   \<and> map_option entry_status
        (map_of (applications (monitor_all_applications example_network
                                  (Some healthy_and_faulty_apps))) ''search'')
       = Some ''healthy''"
proof -
  let ?e = "Exception ''RuntimeError'' ''scanner crashed''"
  have d: "distinct (map fst faulty_among_healthy)"
    by (simp add: faulty_among_healthy_def)
  have m: "(''security_scan'', Inl ?e) \<in> set faulty_among_healthy"
    by (simp add: faulty_among_healthy_def)
  have m1: "(''dependency_check'', Inr dependencies_passed) \<in> set faulty_among_healthy"
    by (simp add: faulty_among_healthy_def)
  have m2: "(''ai_model_tests'', Inr ai_models_passed) \<in> set faulty_among_healthy"
    by (simp add: faulty_among_healthy_def)
  have d': "distinct (map fst healthy_and_faulty_apps)"
    by (simp add: healthy_and_faulty_apps_def)
  have n1: "(''chat'', app_with_endpoints (Some JNull)) \<in> set healthy_and_faulty_apps"
    by (simp add: healthy_and_faulty_apps_def)
  have n2: "(''search'', app_with_endpoints (Some (JList [''/health''])))
              \<in> set healthy_and_faulty_apps"
    by (simp add: healthy_and_faulty_apps_def)
  have c1: "check_application_health example_network ''chat'' (app_with_endpoints (Some JNull))
              = Inl (TypeError none_not_iterable)"
    by (simp add: check_application_health_null endpoints_of_def app_with_endpoints_def)
  obtain h where c2: "check_application_health example_network ''search''
              (app_with_endpoints (Some (JList [''/health'']))) = Inr h"
    and h: "status h = ''healthy''"
    by (simp add: check_application_health_list [where eps = "[''/health'']"]
          endpoints_of_def app_with_endpoints_def example_network_def failed_checks_of_def)
  note main = C3_fault_is_isolated [of faulty_among_healthy "''security_scan''" ?e
      healthy_and_faulty_apps "''chat''" "app_with_endpoints (Some JNull)" example_network
      "TypeError none_not_iterable"]
  from main d m m1 m2 have A: "\<exists>r. run_suite faulty_among_healthy = Inr r
      \<and> map_of (tests r) ''security_scan''
          = Some [(''status'', ''error''), (''error'', ''scanner crashed'')]
      \<and> map_of (tests r) ''dependency_check'' = Some dependencies_passed
      \<and> map_of (tests r) ''ai_model_tests'' = Some ai_models_passed"
    by auto
  from main d' n1 c1 have B: "map_of (applications (monitor_all_applications example_network
        (Some healthy_and_faulty_apps))) ''chat'' = Some (CheckFailed none_not_iterable)"
    by (simp add: TypeError_def)
  from main d' n1 n2 c1 c2 have "map_of (applications (monitor_all_applications example_network
        (Some healthy_and_faulty_apps))) ''search'' = Some (Checked h)"
    by blast
  with h have C: "map_option entry_status
        (map_of (applications (monitor_all_applications example_network
                                  (Some healthy_and_faulty_apps))) ''search'')
       = Some ''healthy''" by simp
  from A B C show ?thesis by (intro conjI)
qed

section \<open>Recommendations\<close>

text \<open>
  Claim C9, as the specification states it: the recommendations for failed outcomes come
  first, then the reminders for skipped outcomes, then the advisories. The code appends
  them in one pass over the outcomes, in the order of the battery. On the seven tests of
  the source, with the unit tests skipped and the security scan failed, three reminders
  for skipped tests come before the recommendation for the failed scan.
\<close>

theorem C9_counterexample:
  "map_sum id recommendations
     (run_full_test_suite (Inr dependencies_passed) (Inr configuration_passed)
        (Inr unit_tests_skipped) (Inr security_failed) (Inr ai_models_passed))
   = Inr ([warning_sign @ '' Implement unit_tests: Add unit tests'',
           warning_sign @ '' Implement integration_tests: Implement AI model integration tests'',
           warning_sign @ '' Implement performance_tests: Add performance benchmarking'',
           red_circle @ '' Fix security_scan: Unknown error'',
           light_bulb @ '' Implement AI model response testing with mocks'']
          @ general_recommendations)"
  by (simp add: run_full_test_suite_def full_test_suite_def run_suite_def truediv_def
      generate_recommendations_def get_default_def test_inputs)

text \<open>
  Claim C9, amended: for every outcome set the list holds, in the order of the outcomes,
  one entry for each outcome that is failed (a corrective recommendation), skipped (a
  reminder) or otherwise carries a recommendation (an advisory), and it ends with the
  five generic reminders (documentation, containerization, CI, health endpoints,
  logging), appended whatever the outcomes are.
\<close>

theorem C9_recommendations_in_battery_order:
  "generate_recommendations test_results
     = List.map_filter recommendation_of test_results @ general_recommendations
   \<and> length general_recommendations = 5"
  by (simp add: generate_recommendations_def recommendations_loop_eq general_recommendations_def)

theorem C9_witness:
  "generate_recommendations
     [(''unit_tests'', unit_tests_skipped), (''security_scan'', security_failed),
      (''dependency_check'', dependencies_passed), (''ai_model_tests'', ai_models_passed)]
   = [warning_sign @ '' Implement unit_tests: Add unit tests'',
      red_circle @ '' Fix security_scan: Unknown error'',
      light_bulb @ '' Implement AI model response testing with mocks'']
     @ general_recommendations"
  using C9_recommendations_in_battery_order
    [of "[(''unit_tests'', unit_tests_skipped), (''security_scan'', security_failed),
          (''dependency_check'', dependencies_passed), (''ai_model_tests'', ai_models_passed)]"]
  by (simp add: List.map_filter_simps recommendation_of_def has_status_def get_default_def
      test_inputs)

section \<open>The health battery: verdicts\<close>

text \<open>
  Claim C5: the overall status of a snapshot is \<^verbatim>\<open>healthy\<close> exactly when no application
  of the snapshot has a status other than \<^verbatim>\<open>healthy\<close>, \<^verbatim>\<open>degraded\<close> when such
  applications are at most 20% of all applications, and \<^verbatim>\<open>unhealthy\<close> otherwise. With
  five applications of which one is unhealthy, the ratio is exactly 20% and the status is
  \<^verbatim>\<open>degraded\<close>.
\<close>

theorem C5_snapshot_status:
  assumes "distinct (map fst apps)"
  shows "(let r = monitor_all_applications perform (Some apps);
              unhealthy = length (non_healthy (applications r));
              total = length (applications r)
          in (snapshot_status r = ''healthy'' \<longleftrightarrow> unhealthy = 0)
             \<and> snapshot_status r =
                 (if unhealthy = 0 then ''healthy''
                  else if 100 * unhealthy \<le> 20 * total then ''degraded''
                  else ''unhealthy''))"
  unfolding monitor_all_applications_eq [OF assms] Let_def
  by (simp add: length_entries)

theorem C5_witness:
  "snapshot_status (monitor_all_applications example_network (Some five_apps_one_unhealthy))
     = ''degraded''
   \<and> length (non_healthy (applications
        (monitor_all_applications example_network (Some five_apps_one_unhealthy)))) = 1
   \<and> length (applications
        (monitor_all_applications example_network (Some five_apps_one_unhealthy))) = 5"
proof -
  have d: "distinct (map fst five_apps_one_unhealthy)"
    by (simp add: five_apps_one_unhealthy_def)
  have apps: "applications (monitor_all_applications example_network (Some five_apps_one_unhealthy))
      = entries example_network five_apps_one_unhealthy"
    by (simp add: monitor_all_applications_eq [OF d])
  have h1: "check_application_health example_network n (app_with_endpoints None)
      = Inr \<lparr>status = ''healthy'', checks = [example_network ''http://localhost:8000'' ''/health''],
             response_time_ms = 5\<rparr>" for n
    by (simp add: check_application_health_list [where eps = "[''/health'']"]
        endpoints_of_def url_of_def app_with_endpoints_def failed_checks_of_def
        example_network_def)
  have h2: "\<exists>h. check_application_health example_network n
        (app_with_endpoints (Some (JList [''/health'']))) = Inr h \<and> status h = ''healthy''" for n
    by (simp add: check_application_health_list [where eps = "[''/health'']"]
        endpoints_of_def url_of_def app_with_endpoints_def failed_checks_of_def
        example_network_def)
  have h3: "\<exists>h. check_application_health example_network n
        (app_with_endpoints (Some (JList [''/down'']))) = Inr h \<and> status h = ''unhealthy''" for n
    by (simp add: check_application_health_list [where eps = "[''/down'']"]
        endpoints_of_def url_of_def app_with_endpoints_def failed_checks_of_def
        example_network_def)
  have h4: "\<exists>h. check_application_health example_network n
        (app_with_endpoints (Some (JList [''/health'', ''/ready'']))) = Inr h
        \<and> status h = ''healthy''" for n
    by (simp add: check_application_health_list [where eps = "[''/health'', ''/ready'']"]
        endpoints_of_def url_of_def app_with_endpoints_def failed_checks_of_def
        example_network_def)
  have h5: "\<exists>h. check_application_health example_network n
        (app_with_endpoints (Some (JList []))) = Inr h \<and> status h = ''healthy''" for n
    by (simp add: check_application_health_list [where eps = "[]"]
        endpoints_of_def url_of_def app_with_endpoints_def failed_checks_of_def)
  have s1: "entry_status (app_entry_of example_network n (app_with_endpoints None)) = ''healthy''" for n
    by (simp add: app_entry_of_def h1)
  have s2: "entry_status (app_entry_of example_network n
       (app_with_endpoints (Some (JList [''/health''])))) = ''healthy''" for n
    using h2 [of n] by (auto simp: app_entry_of_def)
  have s3: "entry_status (app_entry_of example_network n
       (app_with_endpoints (Some (JList [''/down''])))) = ''unhealthy''" for n
    using h3 [of n] by (auto simp: app_entry_of_def)
  have s4: "entry_status (app_entry_of example_network n
       (app_with_endpoints (Some (JList [''/health'', ''/ready''])))) = ''healthy''" for n
    using h4 [of n] by (auto simp: app_entry_of_def)
  have s5: "entry_status (app_entry_of example_network n
       (app_with_endpoints (Some (JList [])))) = ''healthy''" for n
    using h5 [of n] by (auto simp: app_entry_of_def)
  have count: "length (non_healthy (entries example_network five_apps_one_unhealthy)) = 1"
    by (simp add: non_healthy_def entries_def five_apps_one_unhealthy_def s1 s2 s3 s4 s5)
  have total: "length (entries example_network five_apps_one_unhealthy) = 5"
    by (simp add: entries_def five_apps_one_unhealthy_def)
  show ?thesis
    using C5_snapshot_status [OF d, of example_network] unfolding Let_def apps count total
    by simp
qed

text \<open>
  Claim C6: the status of one application is \<^verbatim>\<open>healthy\<close> exactly when none of its
  endpoint checks failed; for a non-empty list of checks it is \<^verbatim>\<open>healthy\<close> at a failed
  ratio of 0, \<^verbatim>\<open>degraded\<close> at a ratio of at most 0.5 and \<^verbatim>\<open>unhealthy\<close> beyond. The check
  returns for every configuration whose \<^verbatim>\<open>health_endpoints\<close> is a list or is absent.
\<close>

theorem C6_application_status:
  assumes "health_endpoints app_config \<noteq> Some JNull"
  shows "\<exists>h. check_application_health perform app_name app_config = Inr h
           \<and> (status h = ''healthy'' \<longleftrightarrow> failed_checks_of (checks h) = 0)
           \<and> (checks h \<noteq> [] \<longrightarrow>
                status h =
                  (let ratio = (of_nat (failed_checks_of (checks h))
                                  / of_nat (length (checks h)) :: rat)
                   in if ratio = 0 then ''healthy''
                      else if ratio \<le> 5 / 10 then ''degraded''
                      else ''unhealthy''))"
proof -
  obtain eps where e: "endpoints_of app_config = JList eps"
    using assms by (rule endpoints_cases)
  define cs where "cs = map (perform (url_of app_config)) eps"
  have len: "length eps = length cs" by (simp add: cs_def)
  have zero: "(of_nat (failed_checks_of cs) / of_nat (length cs) :: rat) = 0
                \<longleftrightarrow> failed_checks_of cs = 0" if "cs \<noteq> []"
    using that by simp
  have half: "(of_nat (failed_checks_of cs) / of_nat (length cs) :: rat) \<le> 5 / 10
                \<longleftrightarrow> 2 * failed_checks_of cs \<le> length cs" if "cs \<noteq> []"
    using ratio_le_iff [of "length cs" 10 "failed_checks_of cs" 5] that by simp
  show ?thesis
    unfolding check_application_health_list [OF e] cs_def [symmetric] len
    by (cases "cs = []") (simp_all add: Let_def zero half)
qed

theorem C6_witness:
  "\<exists>h. check_application_health example_network ''chat''
          (app_with_endpoints (Some (JList [''/health'', ''/down'']))) = Inr h
        \<and> length (checks h) = 2
        \<and> failed_checks_of (checks h) = 1
        \<and> status h = ''degraded''"
proof -
  have ne: "health_endpoints (app_with_endpoints (Some (JList [''/health'', ''/down'']))) \<noteq> Some JNull"
    by (simp add: app_with_endpoints_def)
  obtain h where h: "check_application_health example_network ''chat''
          (app_with_endpoints (Some (JList [''/health'', ''/down'']))) = Inr h"
    and s: "checks h \<noteq> [] \<longrightarrow>
                status h =
                  (let ratio = (of_nat (failed_checks_of (checks h))
                                  / of_nat (length (checks h)) :: rat)
                   in if ratio = 0 then ''healthy''
                      else if ratio \<le> 5 / 10 then ''degraded''
                      else ''unhealthy'')"
    using C6_application_status [OF ne, of example_network "''chat''"] by blast
  have c: "checks h = [example_network ''http://localhost:8000'' ''/health'',
                       example_network ''http://localhost:8000'' ''/down'']"
    using h
    by (auto simp: check_application_health_list [where eps = "[''/health'', ''/down'']"]
        endpoints_of_def url_of_def app_with_endpoints_def)
  have l: "length (checks h) = 2" by (simp add: c)
  have f: "failed_checks_of (checks h) = 1"
    by (simp add: c failed_checks_of_def example_network_def)
  have ne': "checks h \<noteq> []" by (simp add: c)
  have "status h = ''degraded''" using s ne' by (simp add: Let_def l f)
  with h l f show ?thesis by (intro exI [of _ h]) simp
qed

text \<open>
  Claim C10: with an empty list of health endpoints the check returns status
  \<^verbatim>\<open>healthy\<close>, a response time of 0 and no checks; and on no configuration does the check
  raise \<^verbatim>\<open>ZeroDivisionError\<close>, the average being taken only over a non-empty list.
\<close>

theorem C10_no_endpoints:
  "check_application_health perform app_name app_config \<noteq> Inl ZeroDivisionError
   \<and> (health_endpoints app_config = Some (JList []) \<longrightarrow>
        check_application_health perform app_name app_config
          = Inr \<lparr>status = ''healthy'', checks = [], response_time_ms = 0\<rparr>)"
proof (cases "endpoints_of app_config")
  case JNull
  then show ?thesis
    by (auto simp: check_application_health_null TypeError_def ZeroDivisionError_def
        endpoints_of_def)
next
  case (JList eps)
  have "health_endpoints app_config = Some (JList []) \<Longrightarrow> eps = []"
    using JList by (simp add: endpoints_of_def)
  then show ?thesis
    unfolding check_application_health_list [OF JList]
    by (auto simp: failed_checks_of_def)
qed

theorem C10_witness:
  "check_application_health example_network ''agent'' (app_with_endpoints (Some (JList [])))
     = Inr \<lparr>status = ''healthy'', checks = [], response_time_ms = 0\<rparr>"
  using C10_no_endpoints [of example_network "''agent''" "app_with_endpoints (Some (JList []))"]
  by (simp add: app_with_endpoints_def)

section \<open>Alerts\<close>

text \<open>
  Claim C7: the alerts hold one entry for each application that is not healthy, those
  whose check raised included. Evaluated on one application whose \<^verbatim>\<open>health_endpoints\<close>
  is \<^verbatim>\<open>null\<close>: the check raises \<^verbatim>\<open>TypeError\<close>, the \<^verbatim>\<open>except\<close> branch enters the
  application with status \<^verbatim>\<open>error\<close> and counts it as unhealthy, so that the snapshot is
  \<^verbatim>\<open>unhealthy\<close>, but it appends no alert: the list of alerts is empty.
\<close>

theorem C7_failing_input:
  "monitor_all_applications example_network (Some one_app_null_endpoints)
     = \<lparr>snapshot_status = ''unhealthy'',
        applications = [(''chat'', CheckFailed none_not_iterable)],
        snapshot_alerts = []\<rparr>"
proof -
  have d: "distinct (map fst one_app_null_endpoints)"
    by (simp add: one_app_null_endpoints_def)
  have c: "check_application_health example_network ''chat'' (app_with_endpoints (Some JNull))
             = Inl (TypeError none_not_iterable)"
    by (simp add: check_application_health_null endpoints_of_def app_with_endpoints_def)
  show ?thesis
    unfolding monitor_all_applications_eq [OF d]
    by (simp add: one_app_null_endpoints_def entries_def non_healthy_def alerts_for_def
        app_entry_of_def c TypeError_def)
qed

section \<open>Degenerate batteries\<close>

text \<open>
  Claim C8, as the specification states it: an empty outcome set, or one with nothing
  but skipped outcomes, gets the verdict \<^verbatim>\<open>unknown\<close>. No verdict of the code is
  \<^verbatim>\<open>unknown\<close>: a monitoring cycle over no application is \<^verbatim>\<open>healthy\<close>, and a test
  battery whose outcomes are all skipped is \<^verbatim>\<open>poor\<close>, where the rule of the
  specification gives \<^verbatim>\<open>unknown\<close>.
\<close>

theorem C8_counterexample:
  "snapshot_status (monitor_all_applications example_network (Some [])) = ''healthy''
   \<and> map_sum id overall_status (run_suite all_skipped) = Inr ''poor''
   \<and> spec_verdict (outcomes all_skipped) = ''unknown''"
  by (simp add: monitor_all_applications_def run_suite_def all_skipped_def truediv_def
      status_of_success_rate_def spec_verdict_def test_inputs test_vocabulary)

text \<open>
  Claim C8, amended: a degenerate battery gets an ordinary tier. A non-empty test battery
  whose outcomes are all skipped returns with the verdict \<^verbatim>\<open>poor\<close>, and a monitoring
  cycle over an empty set of applications, or with no key \<^verbatim>\<open>applications\<close> in the
  configuration, does not fail and gives \<^verbatim>\<open>healthy\<close>.
\<close>

theorem C8_degenerate_battery:
  assumes "test_suite \<noteq> []"
    and "\<forall>(test_name, test_func) \<in> set test_suite. skipped (outcome test_func)"
  shows "(\<exists>r. run_suite test_suite = Inr r \<and> overall_status r = ''poor'')
         \<and> snapshot_status (monitor_all_applications perform (Some [])) = ''healthy''
         \<and> snapshot_status (monitor_all_applications perform None) = ''healthy''"
proof -
  have sp: "skipped r \<Longrightarrow> \<not> passed r" for r
    by (auto simp: passed_def skipped_def has_status_def)
  have "filter (\<lambda>(test_name, result). passed result) (outcomes test_suite) = []"
    using assms(2) sp by (auto simp: filter_empty_conv outcomes_def)
  then have zero: "passed_count test_suite = 0"
    by (simp add: passed_count_def)
  have pos: "0 < length test_suite" using assms(1) by simp
  have poor: "\<exists>r. run_suite test_suite = Inr r \<and> overall_status r = ''poor''"
    unfolding run_suite_nonempty [OF assms(1)] zero
    using pos status_of_success_rate_nat [OF pos, of 0] by simp
  have m: "snapshot_status (monitor_all_applications perform cfg) = ''healthy''"
    if "cfg = None \<or> cfg = Some []" for cfg
    using that by (auto simp: monitor_all_applications_def)
  from poor m show ?thesis by simp
qed

theorem C8_witness:
  "all_skipped \<noteq> []
   \<and> list_all (\<lambda>(test_name, test_func). skipped (outcome test_func)) all_skipped
   \<and> (\<exists>r. run_suite all_skipped = Inr r \<and> overall_status r = ''poor'')
   \<and> snapshot_status (monitor_all_applications example_network None) = ''healthy''"
proof -
  have ne: "all_skipped \<noteq> []" by (simp add: all_skipped_def)
  have all: "\<forall>(test_name, test_func) \<in> set all_skipped. skipped (outcome test_func)"
    by (simp add: all_skipped_def test_inputs test_vocabulary)
  show ?thesis
    using ne all C8_degenerate_battery [OF ne all, of example_network]
    by (simp add: list_all_iff)
qed

end
